theory Spec2Isabelle
  imports Main Complex_Main
begin

section \<open>Numbers and geometry\<close>

text \<open>
  A C floating-point value, \<open>float\<close> or \<open>double\<close>, is a NaN, an infinity or a
  finite number; the sign of a zero is not kept. The solver's \<open>YGUndefined\<close> is a NaN
  and \<open>YGFloatIsUndefined\<close> tests for one. A comparison with a NaN is false.
\<close>

datatype cfloat = NaN | PosInfinity | NegInfinity | Finite real

abbreviation YGUndefined :: cfloat where
  "YGUndefined \<equiv> NaN"


fun cfloat_less :: "cfloat \<Rightarrow> cfloat \<Rightarrow> bool" where
  "cfloat_less (Finite a) (Finite b) = (a < b)"
| "cfloat_less NegInfinity (Finite b) = True"
| "cfloat_less NegInfinity PosInfinity = True"
| "cfloat_less (Finite a) PosInfinity = True"
| "cfloat_less a b = False"

text \<open>
  The conversion of a \<open>double\<close> to a \<open>float\<close>, as an assignment to a \<open>float\<close>
  makes it: the nearest single-precision number, a tie going to the one with the even
  significand. A single-precision number is a multiple of \<open>2^k / 2^149\<close> below
  \<open>2^24\<close> times that, where \<open>k\<close> is 0 for a magnitude under \<open>2 / 2^126\<close> and
  grows by one with each doubling; a result that reaches \<open>2^128\<close> is an infinity.
  \<open>binary_exponent y\<close> is the number of times \<open>y\<close> can be halved before it is
  below 2.
\<close>

definition round_half_even :: "real \<Rightarrow> int" where
  "round_half_even q =
     (let f = \<lfloor>q\<rfloor>; r = q - of_int f
      in if r < 1 / 2 then f else if 1 / 2 < r then f + 1 else if even f then f else f + 1)"

function binary_exponent :: "real \<Rightarrow> nat" where
  "binary_exponent y = (if y < 2 then 0 else Suc (binary_exponent (y / 2)))"
  by pat_completeness auto
termination
proof (relation "measure (\<lambda>y. nat \<lfloor>y\<rfloor>)", goal_cases)
  case 1
  show ?case by simp
next
  case (2 y)
  then have "2 \<le> y" by simp
  then have "\<lfloor>y / 2\<rfloor> < \<lfloor>y\<rfloor>" by linarith
  moreover from \<open>2 \<le> y\<close> have "0 < \<lfloor>y\<rfloor>" by linarith
  ultimately show ?case by simp
qed

declare binary_exponent.simps [simp del]

definition single_of_real :: "real \<Rightarrow> cfloat" where
  "single_of_real x =
     (let a = \<bar>x\<bar>;
          k = binary_exponent (a * 2 ^ 126);
          n = round_half_even (a * 2 ^ 149 / 2 ^ k);
          r = of_int n * 2 ^ k / 2 ^ 149
      in if 2 ^ 128 \<le> r then (if x < 0 then NegInfinity else PosInfinity)
         else Finite (sgn x * r))"

fun float_of_double :: "cfloat \<Rightarrow> cfloat" where
  "float_of_double (Finite x) = single_of_real x"
| "float_of_double v = v"

text \<open>
  The geometry of the layout pass and of hit testing (\<open>CGFloat\<close>, a double) is taken
  to be finite and is modelled as \<open>real\<close>, without rounding.
\<close>

record CGPoint =
  point_x :: real
  point_y :: real

record CGSize =
  size_width :: real
  size_height :: real

record CGRect =
  rect_origin :: CGPoint
  rect_size :: CGSize

definition CGSizeMake :: "real \<Rightarrow> real \<Rightarrow> CGSize" where
  "CGSizeMake w h = \<lparr>size_width = w, size_height = h\<rparr>"

definition CGPointMake :: "real \<Rightarrow> real \<Rightarrow> CGPoint" where
  "CGPointMake px py = \<lparr>point_x = px, point_y = py\<rparr>"

definition CGRectMake :: "real \<Rightarrow> real \<Rightarrow> real \<Rightarrow> real \<Rightarrow> CGRect" where
  "CGRectMake px py w h = \<lparr>rect_origin = CGPointMake px py, rect_size = CGSizeMake w h\<rparr>"

text \<open>\<open>UIViewNoIntrinsicMetric\<close>, the platform's "no intrinsic value" sentinel.\<close>

definition UIViewNoIntrinsicMetric :: real where
  "UIViewNoIntrinsicMetric = - 1"

section \<open>The measurement callback\<close>

text \<open>
  \<open>MAX\<close> and \<open>MIN\<close> are the platform's macros: \<open>MAX(a, b)\<close> is \<open>a < b ? b : a\<close>
  and \<open>MIN(a, b)\<close> is \<open>a < b ? a : b\<close>. Both are used with a \<open>double\<close> among
  their arguments, so they compare and return doubles (an \<open>int\<close> or a \<open>float\<close>
  becomes the double of the same value).
\<close>

definition MAX_macro :: "cfloat \<Rightarrow> cfloat \<Rightarrow> cfloat" where
  "MAX_macro a b = (if cfloat_less a b then b else a)"

definition MIN_macro :: "cfloat \<Rightarrow> cfloat \<Rightarrow> cfloat" where
  "MIN_macro a b = (if cfloat_less a b then a else b)"

datatype YGMeasureMode = YGMeasureModeUndefined | YGMeasureModeExactly | YGMeasureModeAtMost

text \<open>
  \<open>YGSize\<close> has two \<open>float\<close> fields. \<open>_intrinsicContentSize\<close> is a \<open>CGSize\<close>,
  two doubles, here with any double allowed in each.
\<close>

record YGSize =
  yg_width :: cfloat
  yg_height :: cfloat

record CGSize_double =
  double_width :: cfloat
  double_height :: cfloat

text \<open>
  \<open>RCTShadowViewMeasure\<close>. The node's context is the shadow view; all the callback
  reads of it is \<open>_intrinsicContentSize\<close>, which is the first argument here. The
  offered \<open>width\<close> and \<open>height\<close> are floats. An assignment of a double to a field of
  the result converts it to \<open>float\<close>.
\<close>

definition RCTShadowViewMeasure ::
  "CGSize_double \<Rightarrow> cfloat \<Rightarrow> YGMeasureMode \<Rightarrow> cfloat \<Rightarrow> YGMeasureMode \<Rightarrow> YGSize" where
  "RCTShadowViewMeasure intrinsicContentSize width widthMode height heightMode =
     (let iw = MAX_macro (Finite 0) (double_width intrinsicContentSize);
          ih = MAX_macro (Finite 0) (double_height intrinsicContentSize)
      in \<lparr>yg_width =
            (case widthMode of
               YGMeasureModeUndefined \<Rightarrow> float_of_double iw
             | YGMeasureModeExactly \<Rightarrow> width
             | YGMeasureModeAtMost \<Rightarrow> float_of_double (MIN_macro width iw)),
          yg_height =
            (case heightMode of
               YGMeasureModeUndefined \<Rightarrow> float_of_double ih
             | YGMeasureModeExactly \<Rightarrow> height
             | YGMeasureModeAtMost \<Rightarrow> float_of_double (MIN_macro height ih))\<rparr>)"

section \<open>Box-model meta properties\<close>

datatype YGUnit = YGUnitUndefined | YGUnitPoint | YGUnitPercent | YGUnitAuto

record YGValue =
  yg_value :: cfloat
  yg_unit :: YGUnit


datatype meta_prop_t =
    META_PROP_LEFT | META_PROP_TOP | META_PROP_RIGHT | META_PROP_BOTTOM
  | META_PROP_START | META_PROP_END | META_PROP_HORIZONTAL | META_PROP_VERTICAL
  | META_PROP_ALL

datatype YGEdge =
    YGEdgeLeft | YGEdgeTop | YGEdgeRight | YGEdgeBottom
  | YGEdgeStart | YGEdgeEnd | YGEdgeHorizontal | YGEdgeVertical | YGEdgeAll

text \<open>An array \<open>YGValue[META_PROP_COUNT]\<close>, indexed by the enumeration.\<close>

type_synonym meta_props = "meta_prop_t \<Rightarrow> YGValue"

text \<open>
  The solver's style setters are solver API. All that is kept of the solver's style is,
  for each edge group and each edge, the last setting a setter wrote there: a point
  value (possibly \<open>YGUndefined\<close>), a percentage, or "auto"; \<open>None\<close> for an edge
  never written.
\<close>

datatype style_setting = StylePoints cfloat | StylePercent cfloat | StyleAuto

record YGStyle =
  style_padding :: "YGEdge \<Rightarrow> style_setting option"
  style_margin :: "YGEdge \<Rightarrow> style_setting option"
  style_border :: "YGEdge \<Rightarrow> style_setting option"

definition YGNodeStyleSetPadding :: "YGStyle \<Rightarrow> YGEdge \<Rightarrow> cfloat \<Rightarrow> YGStyle" where
  "YGNodeStyleSetPadding node edge v =
     node\<lparr>style_padding := (style_padding node)(edge \<mapsto> StylePoints v)\<rparr>"

definition YGNodeStyleSetPaddingPercent :: "YGStyle \<Rightarrow> YGEdge \<Rightarrow> cfloat \<Rightarrow> YGStyle" where
  "YGNodeStyleSetPaddingPercent node edge v =
     node\<lparr>style_padding := (style_padding node)(edge \<mapsto> StylePercent v)\<rparr>"

definition YGNodeStyleSetMargin :: "YGStyle \<Rightarrow> YGEdge \<Rightarrow> cfloat \<Rightarrow> YGStyle" where
  "YGNodeStyleSetMargin node edge v =
     node\<lparr>style_margin := (style_margin node)(edge \<mapsto> StylePoints v)\<rparr>"

definition YGNodeStyleSetMarginPercent :: "YGStyle \<Rightarrow> YGEdge \<Rightarrow> cfloat \<Rightarrow> YGStyle" where
  "YGNodeStyleSetMarginPercent node edge v =
     node\<lparr>style_margin := (style_margin node)(edge \<mapsto> StylePercent v)\<rparr>"

definition YGNodeStyleSetMarginAuto :: "YGStyle \<Rightarrow> YGEdge \<Rightarrow> YGStyle" where
  "YGNodeStyleSetMarginAuto node edge =
     node\<lparr>style_margin := (style_margin node)(edge \<mapsto> StyleAuto)\<rparr>"

definition YGNodeStyleSetBorder :: "YGStyle \<Rightarrow> YGEdge \<Rightarrow> cfloat \<Rightarrow> YGStyle" where
  "YGNodeStyleSetBorder node edge v =
     node\<lparr>style_border := (style_border node)(edge \<mapsto> StylePoints v)\<rparr>"

text \<open>
  The macros \<open>RCT_SET_YGVALUE\<close> and \<open>RCT_SET_YGVALUE_AUTO\<close>. The macro pastes
  \<open>Percent\<close> and \<open>Auto\<close> onto the setter's name; here the setters are passed one by
  one.
\<close>

definition RCT_SET_YGVALUE ::
  "YGValue \<Rightarrow> (YGStyle \<Rightarrow> YGEdge \<Rightarrow> cfloat \<Rightarrow> YGStyle)
     \<Rightarrow> (YGStyle \<Rightarrow> YGEdge \<Rightarrow> cfloat \<Rightarrow> YGStyle) \<Rightarrow> YGStyle \<Rightarrow> YGEdge \<Rightarrow> YGStyle" where
  "RCT_SET_YGVALUE ygvalue setter setterPercent node edge =
     (case yg_unit ygvalue of
        YGUnitAuto \<Rightarrow> setter node edge YGUndefined
      | YGUnitUndefined \<Rightarrow> setter node edge YGUndefined
      | YGUnitPoint \<Rightarrow> setter node edge (yg_value ygvalue)
      | YGUnitPercent \<Rightarrow> setterPercent node edge (yg_value ygvalue))"

definition RCT_SET_YGVALUE_AUTO ::
  "YGValue \<Rightarrow> (YGStyle \<Rightarrow> YGEdge \<Rightarrow> cfloat \<Rightarrow> YGStyle)
     \<Rightarrow> (YGStyle \<Rightarrow> YGEdge \<Rightarrow> cfloat \<Rightarrow> YGStyle)
     \<Rightarrow> (YGStyle \<Rightarrow> YGEdge \<Rightarrow> YGStyle) \<Rightarrow> YGStyle \<Rightarrow> YGEdge \<Rightarrow> YGStyle" where
  "RCT_SET_YGVALUE_AUTO ygvalue setter setterPercent setterAuto node edge =
     (case yg_unit ygvalue of
        YGUnitAuto \<Rightarrow> setterAuto node edge
      | YGUnitUndefined \<Rightarrow> setter node edge YGUndefined
      | YGUnitPoint \<Rightarrow> setter node edge (yg_value ygvalue)
      | YGUnitPercent \<Rightarrow> setterPercent node edge (yg_value ygvalue))"

abbreviation set_padding :: "YGValue \<Rightarrow> YGStyle \<Rightarrow> YGEdge \<Rightarrow> YGStyle" where
  "set_padding v node edge \<equiv>
     RCT_SET_YGVALUE v YGNodeStyleSetPadding YGNodeStyleSetPaddingPercent node edge"

abbreviation set_margin :: "YGValue \<Rightarrow> YGStyle \<Rightarrow> YGEdge \<Rightarrow> YGStyle" where
  "set_margin v node edge \<equiv>
     RCT_SET_YGVALUE_AUTO v YGNodeStyleSetMargin YGNodeStyleSetMarginPercent
       YGNodeStyleSetMarginAuto node edge"

text \<open>
  \<open>RCTProcessMetaPropsPadding\<close>, \<open>RCTProcessMetaPropsMargin\<close> and
  \<open>RCTProcessMetaPropsBorder\<close>. The first argument is what
  \<open>[[RCTI18nUtil sharedInstance] doLeftAndRightSwapInRTL]\<close> returns.
\<close>

definition RCTProcessMetaPropsPadding :: "bool \<Rightarrow> meta_props \<Rightarrow> YGStyle \<Rightarrow> YGStyle" where
  "RCTProcessMetaPropsPadding doLeftAndRightSwapInRTL metaProps node0 =
     (let node =
        (if \<not> doLeftAndRightSwapInRTL then
           (let node = set_padding (metaProps META_PROP_START) node0 YGEdgeStart;
                node = set_padding (metaProps META_PROP_END) node YGEdgeEnd;
                node = set_padding (metaProps META_PROP_LEFT) node YGEdgeLeft
            in set_padding (metaProps META_PROP_RIGHT) node YGEdgeRight)
         else
           (let start = (if yg_unit (metaProps META_PROP_START) = YGUnitUndefined
                         then metaProps META_PROP_LEFT else metaProps META_PROP_START);
                end = (if yg_unit (metaProps META_PROP_END) = YGUnitUndefined
                       then metaProps META_PROP_RIGHT else metaProps META_PROP_END);
                node = set_padding start node0 YGEdgeStart
            in set_padding end node YGEdgeEnd));
          node = set_padding (metaProps META_PROP_TOP) node YGEdgeTop;
          node = set_padding (metaProps META_PROP_BOTTOM) node YGEdgeBottom;
          node = set_padding (metaProps META_PROP_HORIZONTAL) node YGEdgeHorizontal;
          node = set_padding (metaProps META_PROP_VERTICAL) node YGEdgeVertical
      in set_padding (metaProps META_PROP_ALL) node YGEdgeAll)"

definition RCTProcessMetaPropsMargin :: "bool \<Rightarrow> meta_props \<Rightarrow> YGStyle \<Rightarrow> YGStyle" where
  "RCTProcessMetaPropsMargin doLeftAndRightSwapInRTL metaProps node0 =
     (let node =
        (if \<not> doLeftAndRightSwapInRTL then
           (let node = set_margin (metaProps META_PROP_START) node0 YGEdgeStart;
                node = set_margin (metaProps META_PROP_END) node YGEdgeEnd;
                node = set_margin (metaProps META_PROP_LEFT) node YGEdgeLeft
            in set_margin (metaProps META_PROP_RIGHT) node YGEdgeRight)
         else
           (let start = (if yg_unit (metaProps META_PROP_START) = YGUnitUndefined
                         then metaProps META_PROP_LEFT else metaProps META_PROP_START);
                end = (if yg_unit (metaProps META_PROP_END) = YGUnitUndefined
                       then metaProps META_PROP_RIGHT else metaProps META_PROP_END);
                node = set_margin start node0 YGEdgeStart
            in set_margin end node YGEdgeEnd));
          node = set_margin (metaProps META_PROP_TOP) node YGEdgeTop;
          node = set_margin (metaProps META_PROP_BOTTOM) node YGEdgeBottom;
          node = set_margin (metaProps META_PROP_HORIZONTAL) node YGEdgeHorizontal;
          node = set_margin (metaProps META_PROP_VERTICAL) node YGEdgeVertical
      in set_margin (metaProps META_PROP_ALL) node YGEdgeAll)"








text \<open>A solver style on which no setter has been called yet.\<close>

definition YGStyle_new :: YGStyle where
  "YGStyle_new = \<lparr>style_padding = Map.empty, style_margin = Map.empty, style_border = Map.empty\<rparr>"

section \<open>The shadow tree\<close>

datatype RCTDisplayType = RCTDisplayTypeNone | RCTDisplayTypeFlex | RCTDisplayTypeInline

datatype UIUserInterfaceLayoutDirection =
  UIUserInterfaceLayoutDirectionLeftToRight | UIUserInterfaceLayoutDirectionRightToLeft

text \<open>
  Modelled from the spec: \<open>RCTLayoutMetrics\<close> is declared in \<open>RCTLayout.h\<close>, which is
  not among the sources. The spec gives its fields as the frame (origin and size), the
  layout direction and the display type, and \<open>RCTLayoutMetricsEqualToLayoutMetrics\<close> as
  their exact field-by-field comparison, which is equality of the record.
\<close>

record RCTLayoutMetrics =
  frame :: CGRect
  layoutDirection :: UIUserInterfaceLayoutDirection
  displayType :: RCTDisplayType

text \<open>The metrics of a view on which no layout has run yet: the zeroed instance variable.\<close>

definition zeroMetrics :: RCTLayoutMetrics where
  "zeroMetrics = \<lparr>frame = CGRectMake 0 0 0 0,
     layoutDirection = UIUserInterfaceLayoutDirectionLeftToRight,
     displayType = RCTDisplayTypeNone\<rparr>"

definition RCTLayoutMetricsEqualToLayoutMetrics :: "RCTLayoutMetrics \<Rightarrow> RCTLayoutMetrics \<Rightarrow> bool" where
  "RCTLayoutMetricsEqualToLayoutMetrics a b = (a = b)"

text \<open>
  What the shadow view reads of its solver node: the dirty flag (\<open>YGNodeIsDirty\<close>), the
  has-new-layout flag (\<open>YGNodeGetHasNewLayout\<close>), the computed layout as
  \<open>RCTLayoutMetricsFromYogaNode\<close> returns it, and the style's minimum width and
  height as \<open>RCTCoreGraphicsFloatFromYogaValue\<close> returns them. Those conversions
  are declared in \<open>RCTLayout.h\<close>, outside the sources; a minimum size written through
  \<open>RCTYogaFloatFromCoreGraphicsFloat\<close> is taken to read back as it was written.
\<close>

record YGNode =
  isDirty :: bool
  hasNewLayout :: bool
  layoutMetricsFromYogaNode :: RCTLayoutMetrics
  styleMinimumSize :: CGSize

text \<open>
  A shadow view with the subtree it owns: its tag, its stored layout metrics, its solver
  node and \<open>_reactSubviews\<close>.
\<close>

datatype RCTShadowView =
  RCTShadowView (reactTag: nat) (layoutMetrics: RCTLayoutMetrics) (yogaNode: YGNode)
    (reactSubviews: "RCTShadowView list")

definition setLayoutMetrics :: "RCTLayoutMetrics \<Rightarrow> RCTShadowView \<Rightarrow> RCTShadowView" where
  "setLayoutMetrics m self = RCTShadowView (reactTag self) m (yogaNode self) (reactSubviews self)"

definition YGNodeSetHasNewLayout :: "RCTShadowView \<Rightarrow> bool \<Rightarrow> RCTShadowView" where
  "YGNodeSetHasNewLayout self b =
     RCTShadowView (reactTag self) (layoutMetrics self) ((yogaNode self)\<lparr>hasNewLayout := b\<rparr>)
       (reactSubviews self)"

definition YGNodeStyleSetMinSize :: "RCTShadowView \<Rightarrow> CGSize \<Rightarrow> RCTShadowView" where
  "YGNodeStyleSetMinSize self minimumSize =
     RCTShadowView (reactTag self) (layoutMetrics self)
       ((yogaNode self)\<lparr>styleMinimumSize := minimumSize\<rparr>) (reactSubviews self)"

text \<open>
  \<open>RCTLayoutContext\<close> is a struct passed by value: \<open>absolutePosition\<close> is copied at
  every call, while \<open>affectedShadowViews\<close> points to one hash table shared by the whole
  pass. The record below is the part passed by value. The shared part is threaded
  through the pass as \<open>layout_pass\<close>: the affected views (by tag), and a log with one
  entry for each call of \<open>layoutWithMetrics:layoutContext:\<close>, the receiver's tag and
  the absolute position of the context it was handed. The method of this class does not
  read the absolute position; the log makes it observable.
\<close>

record RCTLayoutContext =
  absolutePosition :: CGPoint

record layout_pass =
  affectedShadowViews :: "nat set"
  layoutCalls :: "(nat \<times> CGPoint) list"

datatype error = RCTAssertionFailure | NSRangeException

definition advance :: "RCTLayoutContext \<Rightarrow> CGPoint \<Rightarrow> RCTLayoutContext" where
  "advance layoutContext origin =
     layoutContext\<lparr>absolutePosition :=
       \<lparr>point_x = point_x (absolutePosition layoutContext) + point_x origin,
        point_y = point_y (absolutePosition layoutContext) + point_y origin\<rparr>\<rparr>"

text \<open>\<open>layoutWithMetrics:layoutContext:\<close>\<close>

definition layoutWithMetrics ::
  "RCTLayoutMetrics \<Rightarrow> RCTLayoutContext \<Rightarrow> RCTShadowView \<Rightarrow> layout_pass
     \<Rightarrow> RCTShadowView \<times> layout_pass" where
  "layoutWithMetrics m layoutContext self pass =
     (let pass = pass\<lparr>layoutCalls :=
            layoutCalls pass @ [(reactTag self, absolutePosition layoutContext)]\<rparr>
      in if \<not> RCTLayoutMetricsEqualToLayoutMetrics (layoutMetrics self) m
         then (setLayoutMetrics m self,
               pass\<lparr>affectedShadowViews := insert (reactTag self) (affectedShadowViews pass)\<rparr>)
         else (self, pass))"

lemma size_layoutWithMetrics [simp]:
  "size (fst (layoutWithMetrics m layoutContext self pass)) = size self"
  by (cases self) (simp add: layoutWithMetrics_def setLayoutMetrics_def Let_def)

lemma size_YGNodeSetHasNewLayout [simp]: "size (YGNodeSetHasNewLayout self b) = size self"
  by (cases self) (simp add: YGNodeSetHasNewLayout_def)

text \<open>
  \<open>layoutSubviewsWithContext:\<close>. The loop over \<open>_reactSubviews\<close> is
  \<open>layoutSubviews_loop\<close>; its first argument is the local variable \<open>layoutContext\<close>,
  which the loop body updates in place and which therefore goes on to the next
  iteration as the body left it. A failed \<open>RCTAssert\<close> ends the pass with an error.
\<close>

function layoutSubviewsWithContext ::
    "RCTLayoutContext \<Rightarrow> RCTShadowView \<Rightarrow> layout_pass \<Rightarrow> error + (RCTShadowView \<times> layout_pass)"
  and layoutSubviews_loop ::
    "RCTLayoutContext \<Rightarrow> RCTShadowView list \<Rightarrow> layout_pass
       \<Rightarrow> error + (RCTShadowView list \<times> layout_pass)"
where
  "layoutSubviewsWithContext layoutContext self pass =
     (if displayType (layoutMetrics self) = RCTDisplayTypeNone then Inr (self, pass)
      else
        (case layoutSubviews_loop layoutContext (reactSubviews self) pass of
           Inl e \<Rightarrow> Inl e
         | Inr (subviews, pass') \<Rightarrow>
             Inr (RCTShadowView (reactTag self) (layoutMetrics self) (yogaNode self) subviews,
                  pass')))"
| "layoutSubviews_loop layoutContext [] pass = Inr ([], pass)"
| "layoutSubviews_loop layoutContext (childShadowView # rest) pass =
     (if isDirty (yogaNode childShadowView) then Inl RCTAssertionFailure
      else if \<not> hasNewLayout (yogaNode childShadowView) then
        (case layoutSubviews_loop layoutContext rest pass of
           Inl e \<Rightarrow> Inl e
         | Inr (rest', pass') \<Rightarrow> Inr (childShadowView # rest', pass'))
      else
        (let child1 = YGNodeSetHasNewLayout childShadowView False;
             childLayoutMetrics = layoutMetricsFromYogaNode (yogaNode child1);
             layoutContext' =
               advance layoutContext (rect_origin (frame childLayoutMetrics))
         in case layoutWithMetrics childLayoutMetrics layoutContext' child1 pass of
              (child2, pass1) \<Rightarrow>
                (case layoutSubviewsWithContext layoutContext' child2 pass1 of
                   Inl e \<Rightarrow> Inl e
                 | Inr (child3, pass2) \<Rightarrow>
                     (case layoutSubviews_loop layoutContext' rest pass2 of
                        Inl e \<Rightarrow> Inl e
                      | Inr (rest', pass3) \<Rightarrow> Inr (child3 # rest', pass3)))))"
  by pat_completeness auto
termination
proof (relation "measure (\<lambda>a. case a of
          Inl (c, v, p) \<Rightarrow> 2 * size v
        | Inr (c, vs, p) \<Rightarrow> 2 * size_list size vs + 1)", goal_cases)
  case 1
  show ?case by simp
next
  case (2 layoutContext self pass)
  show ?case by (cases self) simp
next
  case 3
  then show ?case by simp
next
  case (4 layoutContext childShadowView rest pass c1 m c' x y)
  from 4 have "x = fst (layoutWithMetrics m c' c1 pass)"
    by (metis fst_conv)
  with 4 have "size x = size childShadowView"
    by simp
  then show ?case by simp
next
  case 5
  then show ?case by simp
qed

text \<open>
  \<open>layoutWithMinimumSize:maximumSize:layoutDirection:layoutContext:\<close>. Its first
  statement, which hands the minimum size to the solver when it differs from the one the
  solver has, is \<open>applyMinimumSize\<close>. The solver's \<open>YGNodeCalculateLayout\<close> is not
  among the sources; it is the first argument, a function of the maximum size, the
  direction and the tree it is run on.
\<close>

definition applyMinimumSize :: "CGSize \<Rightarrow> RCTShadowView \<Rightarrow> RCTShadowView" where
  "applyMinimumSize minimumSize self =
     (let oldMinimumSize = styleMinimumSize (yogaNode self)
      in if oldMinimumSize \<noteq> minimumSize
         then YGNodeStyleSetMinSize self minimumSize else self)"

definition layoutWithMinimumSize ::
  "(CGSize \<Rightarrow> UIUserInterfaceLayoutDirection \<Rightarrow> RCTShadowView \<Rightarrow> RCTShadowView)
     \<Rightarrow> CGSize \<Rightarrow> CGSize \<Rightarrow> UIUserInterfaceLayoutDirection \<Rightarrow> RCTLayoutContext
     \<Rightarrow> RCTShadowView \<Rightarrow> layout_pass \<Rightarrow> error + (RCTShadowView \<times> layout_pass)" where
  "layoutWithMinimumSize YGNodeCalculateLayout minimumSize maximumSize direction
       layoutContext self pass =
     (let self1 = applyMinimumSize minimumSize self;
          self2 = YGNodeCalculateLayout maximumSize direction self1
      in if isDirty (yogaNode self2) then Inl RCTAssertionFailure
         else if \<not> hasNewLayout (yogaNode self2) then Inr (self2, pass)
         else
           (let self3 = YGNodeSetHasNewLayout self2 False;
                m = layoutMetricsFromYogaNode (yogaNode self3);
                layoutContext' = advance layoutContext (rect_origin (frame m))
            in case layoutWithMetrics m layoutContext' self3 pass of
                 (self4, pass1) \<Rightarrow> layoutSubviewsWithContext layoutContext' self4 pass1))"

section \<open>Hit testing\<close>



section \<open>Inserting and removing subviews\<close>

text \<open>
  Insertion and removal work on objects that refer to each other: a view's
  \<open>_reactSubviews\<close> holds its children, a child's \<open>_superview\<close> points back, and the
  solver node of a view holds the solver nodes of its children. Views are named by
  natural numbers and the heap gives each its fields; a solver node is named by the view
  it belongs to (\<open>init\<close> creates one solver node for each view).
\<close>

record shadow_object =
  object_reactSubviews :: "nat list"
  object_superview :: "nat option"
  object_yogaChildren :: "nat list"
  object_canHaveSubviews :: bool
  object_isYogaLeafNode :: bool

type_synonym shadow_heap = "nat \<Rightarrow> shadow_object"

text \<open>
  \<open>canHaveSubviews\<close> and \<open>isYogaLeafNode\<close> are methods, sent to \<open>self\<close>, that a
  subclass may override; this class answers YES to the first and NO to the second. Each
  view carries the answers of its class in the last two fields, which no operation
  changes.
\<close>

definition canHaveSubviews :: "shadow_object \<Rightarrow> bool" where
  "canHaveSubviews self = object_canHaveSubviews self"

definition isYogaLeafNode :: "shadow_object \<Rightarrow> bool" where
  "isYogaLeafNode self = object_isYogaLeafNode self"

text \<open>
  \<open>-[NSMutableArray insertObject:atIndex:]\<close> raises \<open>NSRangeException\<close> when the index
  is greater than the count; the index is unsigned there, so a negative \<open>NSInteger\<close> is
  out of range too. \<open>-[NSMutableArray removeObject:]\<close> removes every occurrence.
\<close>

definition insertObject :: "'a \<Rightarrow> int \<Rightarrow> 'a list \<Rightarrow> error + 'a list" where
  "insertObject anObject index array =
     (if index < 0 \<or> int (length array) < index then Inl NSRangeException
      else Inr (take (nat index) array @ anObject # drop (nat index) array))"

definition removeObject :: "'a \<Rightarrow> 'a list \<Rightarrow> 'a list" where
  "removeObject anObject array = removeAll anObject array"

text \<open>
  Modelled from the spec: \<open>YGNodeInsertChild\<close> and \<open>YGNodeRemoveChild\<close> are solver API
  and not among the sources. The spec has insertion attach the child's solver node "as
  the corresponding solver child at the same index" and removal detach "the solver-child
  link": the child is spliced into the solver node's children at the index given, and
  taken out of them.
\<close>

definition YGNodeInsertChild :: "nat list \<Rightarrow> nat \<Rightarrow> nat \<Rightarrow> nat list" where
  "YGNodeInsertChild children child index = take index children @ child # drop index children"

definition YGNodeRemoveChild :: "nat list \<Rightarrow> nat \<Rightarrow> nat list" where
  "YGNodeRemoveChild children child = removeAll child children"

text \<open>The cast \<open>(uint32_t)atIndex\<close> of an \<open>NSInteger\<close>.\<close>

definition uint32_of_NSInteger :: "int \<Rightarrow> nat" where
  "uint32_of_NSInteger i = nat (i mod 4294967296)"

text \<open>\<open>insertReactSubview:atIndex:\<close> and \<open>removeReactSubview:\<close>\<close>

definition insertReactSubview :: "nat \<Rightarrow> nat \<Rightarrow> int \<Rightarrow> shadow_heap \<Rightarrow> error + shadow_heap" where
  "insertReactSubview self subview atIndex heap =
     (if \<not> canHaveSubviews (heap self) then Inl RCTAssertionFailure
      else
        (case insertObject subview atIndex (object_reactSubviews (heap self)) of
           Inl e \<Rightarrow> Inl e
         | Inr subviews \<Rightarrow>
             (let heap = heap(self := (heap self)\<lparr>object_reactSubviews := subviews\<rparr>);
                  heap = (if \<not> isYogaLeafNode (heap self)
                          then heap(self := (heap self)\<lparr>object_yogaChildren :=
                                 YGNodeInsertChild (object_yogaChildren (heap self)) subview
                                   (uint32_of_NSInteger atIndex)\<rparr>)
                          else heap)
              in Inr (heap(subview := (heap subview)\<lparr>object_superview := Some self\<rparr>)))))"

definition removeReactSubview :: "nat \<Rightarrow> nat \<Rightarrow> shadow_heap \<Rightarrow> shadow_heap" where
  "removeReactSubview self subview heap =
     (let heap = heap(subview := (heap subview)\<lparr>object_superview := None\<rparr>);
          heap = heap(self := (heap self)\<lparr>object_reactSubviews :=
                   removeObject subview (object_reactSubviews (heap self))\<rparr>)
      in if \<not> isYogaLeafNode (heap self)
         then heap(self := (heap self)\<lparr>object_yogaChildren :=
                YGNodeRemoveChild (object_yogaChildren (heap self)) subview\<rparr>)
         else heap)"

text \<open>
  Sequences of the two operations. An operation that raises has changed nothing before
  it raised, so the heap then stays as it was before the call.
\<close>

datatype tree_op = InsertSubview nat nat int | RemoveSubview nat nat

fun exec :: "tree_op \<Rightarrow> shadow_heap \<Rightarrow> error + shadow_heap" where
  "exec (InsertSubview self subview atIndex) heap = insertReactSubview self subview atIndex heap"
| "exec (RemoveSubview self subview) heap = Inr (removeReactSubview self subview heap)"

fun run :: "tree_op list \<Rightarrow> shadow_heap \<Rightarrow> shadow_heap" where
  "run [] heap = heap"
| "run (op # ops) heap =
     (case exec op heap of Inl e \<Rightarrow> run ops heap | Inr heap' \<Rightarrow> run ops heap')"

text \<open>
  An operation whose insertion index, if it has one, is below \<open>2^32\<close>, so that the
  cast to \<open>uint32_t\<close> leaves it as it is.
\<close>

fun index_fits :: "tree_op \<Rightarrow> bool" where
  "index_fits (InsertSubview self subview atIndex) = (atIndex < 4294967296)"
| "index_fits (RemoveSubview self subview) = True"

text \<open>
  The heap in which every view is of this class and as \<open>init\<close> leaves it: no
  subviews, no superview, a solver node without children.
\<close>

definition init_heap :: shadow_heap where
  "init_heap = (\<lambda>v. \<lparr>object_reactSubviews = [], object_superview = None,
                      object_yogaChildren = [], object_canHaveSubviews = True,
                      object_isYogaLeafNode = False\<rparr>)"

section \<open>Two solves in a row\<close>

text \<open>
  What the layout pass relies on when the solver is run a second time with nothing
  changed in between. \<open>same_views t u\<close>: the solver has left the shadow views alone;
  \<open>u\<close> has the tags, the stored metrics and the subviews of \<open>t\<close>. \<open>quiescent u1 u2\<close>,
  for the tree \<open>u1\<close> as the first solve left it and the tree \<open>u2\<close> as the second
  did: the second solve has computed the same layout for every node, reports a new
  layout only for a node for which the first solve reported one, and leaves no node
  dirty.
\<close>

fun same_views :: "RCTShadowView \<Rightarrow> RCTShadowView \<Rightarrow> bool" where
  "same_views (RCTShadowView tag m yn subviews) (RCTShadowView tag' m' yn' subviews') =
     (tag = tag' \<and> m = m' \<and> list_all2 same_views subviews subviews')"

fun quiescent :: "RCTShadowView \<Rightarrow> RCTShadowView \<Rightarrow> bool" where
  "quiescent (RCTShadowView tag m yn subviews) (RCTShadowView tag' m' yn' subviews') =
     (layoutMetricsFromYogaNode yn' = layoutMetricsFromYogaNode yn
      \<and> (hasNewLayout yn' \<longrightarrow> hasNewLayout yn)
      \<and> \<not> isDirty yn'
      \<and> list_all2 quiescent subviews subviews')"

section \<open>Example data\<close>

text \<open>
  The metrics of a displayed box, and a solver node that is clean and holds a new
  layout.
\<close>

definition flexMetrics :: "real \<Rightarrow> real \<Rightarrow> real \<Rightarrow> real \<Rightarrow> RCTLayoutMetrics" where
  "flexMetrics px py w h = \<lparr>frame = CGRectMake px py w h,
     layoutDirection = UIUserInterfaceLayoutDirectionLeftToRight,
     displayType = RCTDisplayTypeFlex\<rparr>"

definition solved :: "RCTLayoutMetrics \<Rightarrow> YGNode" where
  "solved m = \<lparr>isDirty = False, hasNewLayout = True, layoutMetricsFromYogaNode = m,
     styleMinimumSize = CGSizeMake 0 0\<rparr>"

definition pass0 :: layout_pass where
  "pass0 = \<lparr>affectedShadowViews = {}, layoutCalls = []\<rparr>"

definition context0 :: RCTLayoutContext where
  "context0 = \<lparr>absolutePosition = CGPointMake 0 0\<rparr>"

text \<open>
  A root (tag 1) at the origin, already laid out, with two children the solver has new
  layouts for: A (tag 2) at (10, 10) with a child B (tag 3) at (5, 5), and after A its
  sibling C (tag 4) at (20, 20).
\<close>

definition siblings_tree :: RCTShadowView where
  "siblings_tree =
     RCTShadowView 1 (flexMetrics 0 0 100 100) (solved (flexMetrics 0 0 100 100))
       [RCTShadowView 2 zeroMetrics (solved (flexMetrics 10 10 50 50))
          [RCTShadowView 3 zeroMetrics (solved (flexMetrics 5 5 10 10)) []],
        RCTShadowView 4 zeroMetrics (solved (flexMetrics 20 20 30 30)) []]"

text \<open>
  A view (tag 1) whose stored display type is None, with a child and a grandchild for
  both of which the solver has a new layout that differs from the stored one.
\<close>

definition hidden_tree :: RCTShadowView where
  "hidden_tree =
     RCTShadowView 1 zeroMetrics (solved zeroMetrics)
       [RCTShadowView 2 zeroMetrics (solved (flexMetrics 10 10 50 50))
          [RCTShadowView 3 zeroMetrics (solved (flexMetrics 5 5 10 10)) []]]"


text \<open>
  A solver that, like the one in use, reports a new layout for the root on every solve
  and otherwise leaves everything as it is; a tree on which no layout has run, for all
  of whose views that solver holds a new layout; and the same tree laid out.
\<close>

definition marks_root ::
  "CGSize \<Rightarrow> UIUserInterfaceLayoutDirection \<Rightarrow> RCTShadowView \<Rightarrow> RCTShadowView" where
  "marks_root maximumSize direction rootView = YGNodeSetHasNewLayout rootView True"

definition unlaid_tree :: RCTShadowView where
  "unlaid_tree =
     RCTShadowView 1 zeroMetrics (solved (flexMetrics 0 0 100 100))
       [RCTShadowView 2 zeroMetrics (solved (flexMetrics 10 10 50 50))
          [RCTShadowView 3 zeroMetrics (solved (flexMetrics 5 5 10 10)) []],
        RCTShadowView 4 zeroMetrics (solved (flexMetrics 20 20 30 30)) []]"

definition consumed :: "RCTLayoutMetrics \<Rightarrow> CGSize \<Rightarrow> YGNode" where
  "consumed m minimumSize = \<lparr>isDirty = False, hasNewLayout = False,
     layoutMetricsFromYogaNode = m, styleMinimumSize = minimumSize\<rparr>"

definition laid_tree :: RCTShadowView where
  "laid_tree =
     RCTShadowView 1 (flexMetrics 0 0 100 100)
         (consumed (flexMetrics 0 0 100 100) (CGSizeMake 10 10))
       [RCTShadowView 2 (flexMetrics 10 10 50 50)
           (consumed (flexMetrics 10 10 50 50) (CGSizeMake 0 0))
          [RCTShadowView 3 (flexMetrics 5 5 10 10)
             (consumed (flexMetrics 5 5 10 10) (CGSizeMake 0 0)) []],
        RCTShadowView 4 (flexMetrics 20 20 30 30)
          (consumed (flexMetrics 20 20 30 30) (CGSizeMake 0 0)) []]"

text \<open>
  A heap in which view 1 is of a subclass that answers YES to \<open>isYogaLeafNode\<close>, all
  other views being of this class.
\<close>

definition leaf_heap :: shadow_heap where
  "leaf_heap = init_heap(1 := (init_heap 1)\<lparr>object_isYogaLeafNode := True\<rparr>)"

text \<open>The heap after view 2 has been inserted into view 3.\<close>

definition heap1 :: shadow_heap where
  "heap1 = run [InsertSubview 3 2 0] init_heap"

section \<open>Properties of the measurement callback\<close>

lemma binary_exponent_step: "\<not> y < 2 \<Longrightarrow> binary_exponent y = Suc (binary_exponent (y / 2))"
  by (subst binary_exponent.simps) simp

lemma binary_exponent_stop: "y < 2 \<Longrightarrow> binary_exponent y = 0"
  by (subst binary_exponent.simps) simp

lemma binary_exponent_values:
  "binary_exponent (40 * 2 ^ 126) = 131"
  "binary_exponent (100 * 2 ^ 126) = 132"
  "binary_exponent (200 * 2 ^ 126) = 133"
  "binary_exponent (16777217 * 2 ^ 126) = 150"
  by (simp_all add: binary_exponent_step binary_exponent_stop)

lemma single_of_real_0: "single_of_real 0 = Finite 0"
  by (simp add: single_of_real_def Let_def binary_exponent_stop round_half_even_def)

lemma single_of_real_40: "single_of_real 40 = Finite 40"
  apply (simp only: single_of_real_def Let_def abs_numeral binary_exponent_values)
  apply (simp add: round_half_even_def)
  done

lemma single_of_real_100: "single_of_real 100 = Finite 100"
  apply (simp only: single_of_real_def Let_def abs_numeral binary_exponent_values)
  apply (simp add: round_half_even_def)
  done

lemma single_of_real_200: "single_of_real 200 = Finite 200"
  apply (simp only: single_of_real_def Let_def abs_numeral binary_exponent_values)
  apply (simp add: round_half_even_def)
  done

lemma single_of_real_16777217: "single_of_real 16777217 = Finite 16777216"
  apply (simp only: single_of_real_def Let_def abs_numeral binary_exponent_values)
  apply (simp add: round_half_even_def)
  done

lemma round_half_even_nonneg: "0 \<le> q \<Longrightarrow> 0 \<le> round_half_even q"
  by (auto simp: round_half_even_def Let_def intro: add_nonneg_nonneg)

lemma single_of_real_nonneg: "0 \<le> x \<Longrightarrow> \<not> cfloat_less (single_of_real x) (Finite 0)"
proof -
  assume x: "0 \<le> x"
  define k where "k = binary_exponent (\<bar>x\<bar> * 2 ^ 126)"
  have "0 \<le> round_half_even (\<bar>x\<bar> * 2 ^ 149 / 2 ^ k)"
    by (rule round_half_even_nonneg) simp
  then have "0 \<le> sgn x * (of_int (round_half_even (\<bar>x\<bar> * 2 ^ 149 / 2 ^ k)) * 2 ^ k / 2 ^ 149)"
    using x by (simp add: sgn_real_def)
  with x show ?thesis
    by (simp add: single_of_real_def Let_def k_def)
qed

lemma MAX_macro_zero:
  "MAX_macro (Finite 0) NaN = Finite 0"
  "MAX_macro (Finite 0) NegInfinity = Finite 0"
  "MAX_macro (Finite 0) PosInfinity = PosInfinity"
  "MAX_macro (Finite 0) (Finite i) = Finite (max 0 i)"
  by (simp_all add: MAX_macro_def max_def)

lemma clamped_not_negative: "\<not> cfloat_less (MAX_macro (Finite 0) v) (Finite 0)"
  by (cases v) (simp_all add: MAX_macro_zero)

lemma narrowed_clamped_not_negative:
  "\<not> cfloat_less (float_of_double (MAX_macro (Finite 0) v)) (Finite 0)"
  by (cases v) (simp_all add: MAX_macro_zero single_of_real_0 single_of_real_nonneg)

lemma single_max_zero:
  "single_of_real i = Finite i \<Longrightarrow> single_of_real (max 0 i) = Finite (max 0 i)"
  by (simp add: max_def single_of_real_0)

lemma single_min:
  "single_of_real a = Finite a \<Longrightarrow> single_of_real b = Finite b \<Longrightarrow>
   float_of_double (MIN_macro (Finite a) (Finite b)) = Finite (min a b)"
  by (simp add: MIN_macro_def min_def)

lemma measure_examples:
  "yg_width (RCTShadowViewMeasure \<lparr>double_width = Finite 100, double_height = Finite 50\<rparr>
        (Finite 40) YGMeasureModeExactly h hm) = Finite 40"
  "yg_width (RCTShadowViewMeasure \<lparr>double_width = Finite 100, double_height = Finite 50\<rparr>
        (Finite 40) YGMeasureModeAtMost h hm) = Finite 40"
  "yg_width (RCTShadowViewMeasure \<lparr>double_width = Finite 100, double_height = Finite 50\<rparr>
        (Finite 200) YGMeasureModeAtMost h hm) = Finite 100"
  by (simp_all add: RCTShadowViewMeasure_def Let_def MAX_macro_zero single_min
      single_of_real_40 single_of_real_100 single_of_real_200)

text \<open>
  C4, as stated, fails: the intrinsic size is a double and the result a float. With
  the intrinsic width 16777217, which no float holds, the callback returns 16777216
  when the mode is Undefined, not the intrinsic width.
\<close>

theorem measure_narrows_counterexample:
  "yg_width (RCTShadowViewMeasure
       \<lparr>double_width = Finite 16777217, double_height = Finite 50\<rparr>
       YGUndefined YGMeasureModeUndefined YGUndefined YGMeasureModeUndefined)
     = Finite 16777216"
  by (simp add: RCTShadowViewMeasure_def Let_def MAX_macro_zero single_of_real_16777217)

text \<open>
  C4, amended. On each axis the callback first clamps the intrinsic size to zero from
  below (a negative one, the \<open>- 1\<close> sentinel among them, and a NaN count as 0; the
  clamped size is never negative). It returns the clamped intrinsic size converted to
  \<open>float\<close> when the mode is Undefined, the offered size when the mode is Exactly,
  and the lesser of the offered and the clamped intrinsic size, converted to
  \<open>float\<close>, when the mode is AtMost; no result of the first kind is negative. Where
  the intrinsic size is a number a float holds, these are the clamped intrinsic size and
  its minimum with the offered size themselves. With the intrinsic size (100, 50), the
  offered width 40 gives the width 40 in the modes Exactly and AtMost, and the offered
  width 200 gives 100 in the mode AtMost.
\<close>

theorem RCTShadowViewMeasure_amended:
  "yg_width (RCTShadowViewMeasure ics w YGMeasureModeUndefined h hm)
     = float_of_double (MAX_macro (Finite 0) (double_width ics))
   \<and> yg_width (RCTShadowViewMeasure ics w YGMeasureModeExactly h hm) = w
   \<and> yg_width (RCTShadowViewMeasure ics w YGMeasureModeAtMost h hm)
     = float_of_double (MIN_macro w (MAX_macro (Finite 0) (double_width ics)))
   \<and> yg_height (RCTShadowViewMeasure ics w wm h YGMeasureModeUndefined)
     = float_of_double (MAX_macro (Finite 0) (double_height ics))
   \<and> yg_height (RCTShadowViewMeasure ics w wm h YGMeasureModeExactly) = h
   \<and> yg_height (RCTShadowViewMeasure ics w wm h YGMeasureModeAtMost)
     = float_of_double (MIN_macro h (MAX_macro (Finite 0) (double_height ics)))
   \<and> MAX_macro (Finite 0) NaN = Finite 0
   \<and> MAX_macro (Finite 0) (Finite UIViewNoIntrinsicMetric) = Finite 0
   \<and> MAX_macro (Finite 0) (Finite i) = Finite (max 0 i)
   \<and> \<not> cfloat_less (MAX_macro (Finite 0) v) (Finite 0)
   \<and> \<not> cfloat_less (float_of_double (MAX_macro (Finite 0) v)) (Finite 0)
   \<and> (float_of_double (Finite i) = Finite i \<longrightarrow>
        yg_width (RCTShadowViewMeasure \<lparr>double_width = Finite i, double_height = j\<rparr>
          w YGMeasureModeUndefined h hm) = Finite (max 0 i)
      \<and> yg_height (RCTShadowViewMeasure \<lparr>double_width = j, double_height = Finite i\<rparr>
          w wm h YGMeasureModeUndefined) = Finite (max 0 i))
   \<and> (float_of_double (Finite i) = Finite i \<and> float_of_double (Finite offered) = Finite offered
        \<longrightarrow>
        yg_width (RCTShadowViewMeasure \<lparr>double_width = Finite i, double_height = j\<rparr>
          (Finite offered) YGMeasureModeAtMost h hm) = Finite (min offered (max 0 i))
      \<and> yg_height (RCTShadowViewMeasure \<lparr>double_width = j, double_height = Finite i\<rparr>
          w wm (Finite offered) YGMeasureModeAtMost) = Finite (min offered (max 0 i)))
   \<and> yg_width (RCTShadowViewMeasure \<lparr>double_width = Finite 100, double_height = Finite 50\<rparr>
        (Finite 40) YGMeasureModeExactly h hm) = Finite 40
   \<and> yg_width (RCTShadowViewMeasure \<lparr>double_width = Finite 100, double_height = Finite 50\<rparr>
        (Finite 40) YGMeasureModeAtMost h hm) = Finite 40
   \<and> yg_width (RCTShadowViewMeasure \<lparr>double_width = Finite 100, double_height = Finite 50\<rparr>
        (Finite 200) YGMeasureModeAtMost h hm) = Finite 100"
  by (simp add: measure_examples)
     (simp add: RCTShadowViewMeasure_def Let_def MAX_macro_zero clamped_not_negative
      narrowed_clamped_not_negative single_max_zero single_min UIViewNoIntrinsicMetric_def)

theorem RCTShadowViewMeasure_amended_witness:
  "float_of_double (Finite 100) = Finite 100
   \<and> float_of_double (Finite 40) = Finite 40
   \<and> float_of_double (Finite 200) = Finite 200
   \<and> yg_width (RCTShadowViewMeasure \<lparr>double_width = Finite 100, double_height = Finite 50\<rparr>
        (Finite 40) YGMeasureModeExactly YGUndefined YGMeasureModeUndefined) = Finite 40
   \<and> yg_width (RCTShadowViewMeasure \<lparr>double_width = Finite 100, double_height = Finite 50\<rparr>
        (Finite 40) YGMeasureModeAtMost YGUndefined YGMeasureModeUndefined) = Finite 40
   \<and> yg_width (RCTShadowViewMeasure \<lparr>double_width = Finite 100, double_height = Finite 50\<rparr>
        (Finite 200) YGMeasureModeAtMost YGUndefined YGMeasureModeUndefined) = Finite 100
   \<and> yg_width (RCTShadowViewMeasure \<lparr>double_width = Finite 100, double_height = Finite 50\<rparr>
        YGUndefined YGMeasureModeUndefined YGUndefined YGMeasureModeUndefined) = Finite 100
   \<and> yg_width (RCTShadowViewMeasure
        \<lparr>double_width = Finite UIViewNoIntrinsicMetric,
         double_height = Finite UIViewNoIntrinsicMetric\<rparr>
        YGUndefined YGMeasureModeUndefined YGUndefined YGMeasureModeUndefined) = Finite 0"
proof -
  have r: "float_of_double (Finite 100) = Finite 100" "float_of_double (Finite 40) = Finite 40"
    "float_of_double (Finite 200) = Finite 200"
    by (simp_all add: single_of_real_40 single_of_real_100 single_of_real_200)
  note at_40 = RCTShadowViewMeasure_amended [where i = 100 and offered = 40
      and j = "Finite 50" and w = "Finite 40" and h = YGUndefined
      and hm = YGMeasureModeUndefined and wm = YGMeasureModeUndefined and v = NaN
      and ics = "\<lparr>double_width = Finite 100, double_height = Finite 50\<rparr>"]
  note at_200 = RCTShadowViewMeasure_amended [where i = 100 and offered = 200
      and j = "Finite 50" and w = YGUndefined and h = YGUndefined
      and hm = YGMeasureModeUndefined and wm = YGMeasureModeUndefined and v = NaN
      and ics = "\<lparr>double_width = Finite UIViewNoIntrinsicMetric,
                  double_height = Finite UIViewNoIntrinsicMetric\<rparr>"]
  from at_40 have exactly: "yg_width (RCTShadowViewMeasure
      \<lparr>double_width = Finite 100, double_height = Finite 50\<rparr>
      (Finite 40) YGMeasureModeExactly YGUndefined YGMeasureModeUndefined) = Finite 40"
    by blast
  from at_40 r have "yg_width (RCTShadowViewMeasure
      \<lparr>double_width = Finite 100, double_height = Finite 50\<rparr>
      (Finite 40) YGMeasureModeAtMost YGUndefined YGMeasureModeUndefined)
      = Finite (min 40 (max 0 100))"
    by blast
  then have at_most_40: "yg_width (RCTShadowViewMeasure
      \<lparr>double_width = Finite 100, double_height = Finite 50\<rparr>
      (Finite 40) YGMeasureModeAtMost YGUndefined YGMeasureModeUndefined) = Finite 40"
    by simp
  from at_200 r have "yg_width (RCTShadowViewMeasure
      \<lparr>double_width = Finite 100, double_height = Finite 50\<rparr>
      (Finite 200) YGMeasureModeAtMost YGUndefined YGMeasureModeUndefined)
      = Finite (min 200 (max 0 100))"
    by blast
  then have at_most_200: "yg_width (RCTShadowViewMeasure
      \<lparr>double_width = Finite 100, double_height = Finite 50\<rparr>
      (Finite 200) YGMeasureModeAtMost YGUndefined YGMeasureModeUndefined) = Finite 100"
    by simp
  from at_200 r have "yg_width (RCTShadowViewMeasure
      \<lparr>double_width = Finite 100, double_height = Finite 50\<rparr>
      YGUndefined YGMeasureModeUndefined YGUndefined YGMeasureModeUndefined)
      = Finite (max 0 100)"
    by blast
  then have undefined_mode: "yg_width (RCTShadowViewMeasure
      \<lparr>double_width = Finite 100, double_height = Finite 50\<rparr>
      YGUndefined YGMeasureModeUndefined YGUndefined YGMeasureModeUndefined) = Finite 100"
    by simp
  from at_200 have "yg_width (RCTShadowViewMeasure
      \<lparr>double_width = Finite UIViewNoIntrinsicMetric,
       double_height = Finite UIViewNoIntrinsicMetric\<rparr>
      YGUndefined YGMeasureModeUndefined YGUndefined YGMeasureModeUndefined)
      = float_of_double (MAX_macro (Finite 0)
          (double_width \<lparr>double_width = Finite UIViewNoIntrinsicMetric,
             double_height = Finite UIViewNoIntrinsicMetric\<rparr>))"
    by blast
  then have sentinel: "yg_width (RCTShadowViewMeasure
      \<lparr>double_width = Finite UIViewNoIntrinsicMetric,
       double_height = Finite UIViewNoIntrinsicMetric\<rparr>
      YGUndefined YGMeasureModeUndefined YGUndefined YGMeasureModeUndefined) = Finite 0"
    by (simp add: MAX_macro_zero single_of_real_0 UIViewNoIntrinsicMetric_def)
  from r exactly at_most_40 at_most_200 undefined_mode sentinel show ?thesis
    by simp
qed

section \<open>Properties of the box-model resolution\<close>

lemmas style_setters =
  YGNodeStyleSetPadding_def YGNodeStyleSetPaddingPercent_def YGNodeStyleSetMargin_def
  YGNodeStyleSetMarginPercent_def YGNodeStyleSetMarginAuto_def YGNodeStyleSetBorder_def

lemma set_padding_other:
  "e \<noteq> e' \<Longrightarrow> style_padding (set_padding v node e') e = style_padding node e"
  by (simp add: RCT_SET_YGVALUE_def style_setters split: YGUnit.split)

lemma set_margin_other:
  "e \<noteq> e' \<Longrightarrow> style_margin (set_margin v node e') e = style_margin node e"
  by (simp add: RCT_SET_YGVALUE_AUTO_def style_setters split: YGUnit.split)


lemma set_padding_same:
  "style_padding (set_padding v node e) e =
     Some (case yg_unit v of
             YGUnitAuto \<Rightarrow> StylePoints YGUndefined
           | YGUnitUndefined \<Rightarrow> StylePoints YGUndefined
           | YGUnitPoint \<Rightarrow> StylePoints (yg_value v)
           | YGUnitPercent \<Rightarrow> StylePercent (yg_value v))"
  by (simp add: RCT_SET_YGVALUE_def style_setters split: YGUnit.split)

lemma set_margin_same:
  "style_margin (set_margin v node e) e =
     Some (case yg_unit v of
             YGUnitAuto \<Rightarrow> StyleAuto
           | YGUnitUndefined \<Rightarrow> StylePoints YGUndefined
           | YGUnitPoint \<Rightarrow> StylePoints (yg_value v)
           | YGUnitPercent \<Rightarrow> StylePercent (yg_value v))"
  by (simp add: RCT_SET_YGVALUE_AUTO_def style_setters split: YGUnit.split)


lemma margin_start_end:
  "style_margin (RCTProcessMetaPropsMargin swap mp node) YGEdgeStart
     = style_margin (set_margin
         (if swap \<and> yg_unit (mp META_PROP_START) = YGUnitUndefined
          then mp META_PROP_LEFT else mp META_PROP_START) node YGEdgeStart) YGEdgeStart"
  "style_margin (RCTProcessMetaPropsMargin swap mp node) YGEdgeEnd
     = style_margin (set_margin
         (if swap \<and> yg_unit (mp META_PROP_END) = YGUnitUndefined
          then mp META_PROP_RIGHT else mp META_PROP_END) node YGEdgeEnd) YGEdgeEnd"
  by (auto simp add: RCTProcessMetaPropsMargin_def Let_def set_margin_other set_margin_same)

lemma padding_start_end:
  "style_padding (RCTProcessMetaPropsPadding swap mp node) YGEdgeStart
     = style_padding (set_padding
         (if swap \<and> yg_unit (mp META_PROP_START) = YGUnitUndefined
          then mp META_PROP_LEFT else mp META_PROP_START) node YGEdgeStart) YGEdgeStart"
  "style_padding (RCTProcessMetaPropsPadding swap mp node) YGEdgeEnd
     = style_padding (set_padding
         (if swap \<and> yg_unit (mp META_PROP_END) = YGUnitUndefined
          then mp META_PROP_RIGHT else mp META_PROP_END) node YGEdgeEnd) YGEdgeEnd"
  by (auto simp add: RCTProcessMetaPropsPadding_def Let_def set_padding_other set_padding_same)


text \<open>
  C2. Margin and padding. With mirroring disabled, the solver's start edge holds the
  setting of the start value and its end edge the setting of the end value, whatever
  left and right hold. With mirroring enabled, the start edge holds the setting of the
  start value when start is set (its unit is not Undefined) and of the left value
  otherwise, and the end edge that of the end value when end is set and of the right
  value otherwise. The setting of a value is written out: "auto" for a margin of unit
  Auto, the point value or the percentage for the units Point and Percent, an undefined
  point value otherwise.
\<close>

theorem margin_padding_start_end_resolution:
  "style_margin (RCTProcessMetaPropsMargin False mp node) YGEdgeStart
     = Some (case yg_unit (mp META_PROP_START) of
               YGUnitAuto \<Rightarrow> StyleAuto
             | YGUnitUndefined \<Rightarrow> StylePoints YGUndefined
             | YGUnitPoint \<Rightarrow> StylePoints (yg_value (mp META_PROP_START))
             | YGUnitPercent \<Rightarrow> StylePercent (yg_value (mp META_PROP_START)))
   \<and> style_margin (RCTProcessMetaPropsMargin False mp node) YGEdgeEnd
     = Some (case yg_unit (mp META_PROP_END) of
               YGUnitAuto \<Rightarrow> StyleAuto
             | YGUnitUndefined \<Rightarrow> StylePoints YGUndefined
             | YGUnitPoint \<Rightarrow> StylePoints (yg_value (mp META_PROP_END))
             | YGUnitPercent \<Rightarrow> StylePercent (yg_value (mp META_PROP_END)))
   \<and> style_padding (RCTProcessMetaPropsPadding False mp node) YGEdgeStart
     = Some (case yg_unit (mp META_PROP_START) of
               YGUnitAuto \<Rightarrow> StylePoints YGUndefined
             | YGUnitUndefined \<Rightarrow> StylePoints YGUndefined
             | YGUnitPoint \<Rightarrow> StylePoints (yg_value (mp META_PROP_START))
             | YGUnitPercent \<Rightarrow> StylePercent (yg_value (mp META_PROP_START)))
   \<and> style_padding (RCTProcessMetaPropsPadding False mp node) YGEdgeEnd
     = Some (case yg_unit (mp META_PROP_END) of
               YGUnitAuto \<Rightarrow> StylePoints YGUndefined
             | YGUnitUndefined \<Rightarrow> StylePoints YGUndefined
             | YGUnitPoint \<Rightarrow> StylePoints (yg_value (mp META_PROP_END))
             | YGUnitPercent \<Rightarrow> StylePercent (yg_value (mp META_PROP_END)))
   \<and> style_margin (RCTProcessMetaPropsMargin True mp node) YGEdgeStart
     = (let v = (if yg_unit (mp META_PROP_START) \<noteq> YGUnitUndefined
                 then mp META_PROP_START else mp META_PROP_LEFT)
        in Some (case yg_unit (v) of
                  YGUnitAuto \<Rightarrow> StyleAuto
                | YGUnitUndefined \<Rightarrow> StylePoints YGUndefined
                | YGUnitPoint \<Rightarrow> StylePoints (yg_value (v))
                | YGUnitPercent \<Rightarrow> StylePercent (yg_value (v))))
   \<and> style_margin (RCTProcessMetaPropsMargin True mp node) YGEdgeEnd
     = (let v = (if yg_unit (mp META_PROP_END) \<noteq> YGUnitUndefined
                 then mp META_PROP_END else mp META_PROP_RIGHT)
        in Some (case yg_unit (v) of
                  YGUnitAuto \<Rightarrow> StyleAuto
                | YGUnitUndefined \<Rightarrow> StylePoints YGUndefined
                | YGUnitPoint \<Rightarrow> StylePoints (yg_value (v))
                | YGUnitPercent \<Rightarrow> StylePercent (yg_value (v))))
   \<and> style_padding (RCTProcessMetaPropsPadding True mp node) YGEdgeStart
     = (let v = (if yg_unit (mp META_PROP_START) \<noteq> YGUnitUndefined
                 then mp META_PROP_START else mp META_PROP_LEFT)
        in Some (case yg_unit (v) of
                  YGUnitAuto \<Rightarrow> StylePoints YGUndefined
                | YGUnitUndefined \<Rightarrow> StylePoints YGUndefined
                | YGUnitPoint \<Rightarrow> StylePoints (yg_value (v))
                | YGUnitPercent \<Rightarrow> StylePercent (yg_value (v))))
   \<and> style_padding (RCTProcessMetaPropsPadding True mp node) YGEdgeEnd
     = (let v = (if yg_unit (mp META_PROP_END) \<noteq> YGUnitUndefined
                 then mp META_PROP_END else mp META_PROP_RIGHT)
        in Some (case yg_unit (v) of
                  YGUnitAuto \<Rightarrow> StylePoints YGUndefined
                | YGUnitUndefined \<Rightarrow> StylePoints YGUndefined
                | YGUnitPoint \<Rightarrow> StylePoints (yg_value (v))
                | YGUnitPercent \<Rightarrow> StylePercent (yg_value (v))))"
  by (simp add: margin_start_end padding_start_end set_margin_same set_padding_same Let_def)







section \<open>Properties of the layout pass\<close>

lemmas example_defs =
  zeroMetrics_def flexMetrics_def solved_def pass0_def context0_def
  CGRectMake_def CGPointMake_def CGSizeMake_def

lemmas pass_defs =
  applyMinimumSize_def YGNodeStyleSetMinSize_def YGNodeSetHasNewLayout_def
  layoutWithMetrics_def setLayoutMetrics_def advance_def
  RCTLayoutMetricsEqualToLayoutMetrics_def Let_def

text \<open>
  C1, evaluated on the root with the children A and C. The context handed to B, the
  child of A, holds (15, 15). The context handed to C, the sibling after A, holds
  (30, 30): the origin (10, 10) of A is still in the accumulator when the loop reaches
  C at (20, 20).
\<close>

theorem sibling_offset_accumulates:
  "map_sum id (\<lambda>r. layoutCalls (snd r)) (layoutSubviewsWithContext context0 siblings_tree pass0)
     = Inr [(2, CGPointMake 10 10), (3, CGPointMake 15 15), (4, CGPointMake 30 30)]"
  by (simp add: siblings_tree_def example_defs pass_defs)

text \<open>
  C10. When the stored layout metrics of a view have display type None,
  \<open>layoutSubviewsWithContext:\<close> returns at once: the view with its whole subtree (the
  has-new-layout flags and the stored metrics of all descendants) and the pass (the
  affected views, the calls of \<open>layoutWithMetrics:layoutContext:\<close>) are as they were.
\<close>

theorem display_none_skips_subviews:
  "displayType (layoutMetrics self) = RCTDisplayTypeNone \<Longrightarrow>
   layoutSubviewsWithContext layoutContext self pass = Inr (self, pass)"
  by simp

theorem display_none_skips_subviews_witness:
  "displayType (layoutMetrics hidden_tree) = RCTDisplayTypeNone
   \<and> layoutSubviewsWithContext context0 hidden_tree pass0 = Inr (hidden_tree, pass0)
   \<and> map (\<lambda>v. hasNewLayout (yogaNode v)) (reactSubviews hidden_tree) = [True]
   \<and> map (\<lambda>v. layoutMetricsFromYogaNode (yogaNode v) = layoutMetrics v)
        (reactSubviews hidden_tree) = [False]"
  using display_none_skips_subviews [of hidden_tree context0 pass0]
  by (simp add: hidden_tree_def example_defs)

subsection \<open>Laying out twice\<close>

lemma layoutWithMetrics_fst:
  "fst (layoutWithMetrics m' c (RCTShadowView t m y subs) q) = RCTShadowView t m' y subs"
  by (simp add: layoutWithMetrics_def setLayoutMetrics_def RCTLayoutMetricsEqualToLayoutMetrics_def Let_def)

lemma layoutWithMetrics_affected_same:
  "affectedShadowViews (snd (layoutWithMetrics m c (RCTShadowView t m y subs) q)) = affectedShadowViews q"
  by (simp add: layoutWithMetrics_def RCTLayoutMetricsEqualToLayoutMetrics_def Let_def)

lemma loop_Cons_skip:
  "\<not> isDirty y \<Longrightarrow> \<not> hasNewLayout y \<Longrightarrow>
   layoutSubviews_loop c (RCTShadowView t m y subs # rest) q =
     (case layoutSubviews_loop c rest q of
        Inl e \<Rightarrow> Inl e
      | Inr (rest', q') \<Rightarrow> Inr (RCTShadowView t m y subs # rest', q'))"
  by simp

declare layoutSubviews_loop.simps(2) [simp del]

declare layoutSubviewsWithContext.simps [simp del]

lemma loop_Cons_visit:
  "\<not> isDirty y \<Longrightarrow> hasNewLayout y \<Longrightarrow>
   layoutSubviews_loop c (RCTShadowView t m y subs # rest) q =
     (let ycl = y\<lparr>hasNewLayout := False\<rparr>;
          mn = layoutMetricsFromYogaNode ycl;
          c' = advance c (rect_origin (frame mn))
      in case layoutSubviewsWithContext c' (RCTShadowView t mn ycl subs)
                (snd (layoutWithMetrics mn c' (RCTShadowView t m ycl subs) q)) of
           Inl e \<Rightarrow> Inl e
         | Inr (child3, q2) \<Rightarrow>
             (case layoutSubviews_loop c' rest q2 of
                Inl e \<Rightarrow> Inl e
              | Inr (rest', q3) \<Rightarrow> Inr (child3 # rest', q3)))"
  apply (simp only: layoutSubviews_loop.simps Let_def YGNodeSetHasNewLayout_def RCTShadowView.sel
      if_False if_True simp_thms split_beta layoutWithMetrics_fst)
  apply (simp split: sum.split prod.split)
  done

lemma view_unfold:
  "layoutSubviewsWithContext c (RCTShadowView t m y subs) q =
     (if displayType m = RCTDisplayTypeNone then Inr (RCTShadowView t m y subs, q)
      else (case layoutSubviews_loop c subs q of
              Inl e \<Rightarrow> Inl e
            | Inr (subs', q') \<Rightarrow> Inr (RCTShadowView t m y subs', q')))"
  by (simp add: layoutSubviewsWithContext.simps split: sum.split prod.split)

lemma loop_second_pass:
  assumes "layoutSubviews_loop c1 us1 q1 = Inr (ts1, q1')"
    and "list_all2 same_views ts1 us2"
    and "list_all2 quiescent us1 us2"
  shows "\<exists>ts2 q2'. layoutSubviews_loop c2 us2 q2 = Inr (ts2, q2')
           \<and> affectedShadowViews q2' = affectedShadowViews q2
           \<and> list_all2 same_views ts1 ts2"
  using assms
proof (induction "size_list size us1" arbitrary: us1 c1 q1 ts1 q1' us2 c2 q2 rule: less_induct)
  case less
  show ?case
  proof (cases us1)
    case Nil
    with less.prems show ?thesis by simp
  next
    case (Cons u rest)
    from less.prems(3) Cons obtain w rest2 where
      us2: "us2 = w # rest2" and qw: "quiescent u w" and qrest: "list_all2 quiescent rest rest2"
      by (auto simp: list_all2_Cons1)
    obtain t m y subs where u: "u = RCTShadowView t m y subs" by (cases u)
    obtain t' m' y' subs' where w: "w = RCTShadowView t' m' y' subs'" by (cases w)
    from qw u w have
      yl: "layoutMetricsFromYogaNode y' = layoutMetricsFromYogaNode y"
      and new: "hasNewLayout y' \<longrightarrow> hasNewLayout y"
      and clean': "\<not> isDirty y'"
      and qsubs: "list_all2 quiescent subs subs'"
      by simp_all
    from less.prems(1) Cons u have clean: "\<not> isDirty y"
      by (auto simp: layoutSubviews_loop.simps(2) split: if_splits)
    have small_rest: "size_list size rest < size_list size us1"
      using Cons by simp
    have small_subs: "size_list size subs < size_list size us1"
      using Cons u by simp
    show ?thesis
    proof (cases "hasNewLayout y")
      case False
      with new have new': "\<not> hasNewLayout y'" by simp
      from less.prems(1) Cons u clean False obtain rest_t where
        r1: "layoutSubviews_loop c1 rest q1 = Inr (rest_t, q1')" and ts1: "ts1 = u # rest_t"
        by (auto simp: loop_Cons_skip split: sum.splits)
      from less.prems(2) ts1 us2 have sv: "same_views u w" and svrest: "list_all2 same_views rest_t rest2"
        by simp_all
      from less.hyps [OF small_rest r1 svrest qrest, of c2 q2] obtain ts2 q2' where
        r2: "layoutSubviews_loop c2 rest2 q2 = Inr (ts2, q2')"
        and a2: "affectedShadowViews q2' = affectedShadowViews q2"
        and s2: "list_all2 same_views rest_t ts2"
        by blast
      from r2 clean' new' w us2 have "layoutSubviews_loop c2 us2 q2 = Inr (w # ts2, q2')"
        by (simp add: loop_Cons_skip)
      with a2 s2 sv ts1 show ?thesis by simp
    next
      case True
      define ycl where "ycl = y\<lparr>hasNewLayout := False\<rparr>"
      define mn where "mn = layoutMetricsFromYogaNode y"
      define c1' where "c1' = advance c1 (rect_origin (frame mn))"
      define q1a where "q1a = snd (layoutWithMetrics mn c1' (RCTShadowView t m ycl subs) q1)"
      from less.prems(1) Cons u clean True obtain child3 q1b rest_t where
        v1: "layoutSubviewsWithContext c1' (RCTShadowView t mn ycl subs) q1a = Inr (child3, q1b)"
        and r1: "layoutSubviews_loop c1' rest q1b = Inr (rest_t, q1')"
        and ts1: "ts1 = child3 # rest_t"
        by (auto simp: loop_Cons_visit Let_def ycl_def mn_def c1'_def q1a_def split: sum.splits)
      from less.prems(2) ts1 us2 have sv: "same_views child3 w" and svrest: "list_all2 same_views rest_t rest2"
        by simp_all
      txt \<open>The first pass on the subviews of u.\<close>
      have "\<exists>subs3. child3 = RCTShadowView t mn ycl subs3
          \<and> (if displayType mn = RCTDisplayTypeNone then subs3 = subs \<and> q1b = q1a
              else layoutSubviews_loop c1' subs q1a = Inr (subs3, q1b))"
        using v1 by (auto simp: view_unfold split: if_splits sum.splits)
      then obtain subs3 where
        c3: "child3 = RCTShadowView t mn ycl subs3"
        and sub1: "if displayType mn = RCTDisplayTypeNone then subs3 = subs \<and> q1b = q1a
              else layoutSubviews_loop c1' subs q1a = Inr (subs3, q1b)"
        by blast
      from sv c3 w have tt: "t' = t" and mm: "m' = mn" and svsubs: "list_all2 same_views subs3 subs'"
        by simp_all
      show ?thesis
      proof (cases "hasNewLayout y'")
        case False
        from less.hyps [OF small_rest r1 svrest qrest, of c2 q2] obtain ts2 q2' where
          r2: "layoutSubviews_loop c2 rest2 q2 = Inr (ts2, q2')"
          and a2: "affectedShadowViews q2' = affectedShadowViews q2"
          and s2: "list_all2 same_views rest_t ts2"
          by blast
        from r2 clean' False w us2 have "layoutSubviews_loop c2 us2 q2 = Inr (w # ts2, q2')"
          by (simp add: loop_Cons_skip)
        with a2 s2 sv ts1 show ?thesis by simp
      next
        case new': True
        define ycl' where "ycl' = y'\<lparr>hasNewLayout := False\<rparr>"
        define c2' where "c2' = advance c2 (rect_origin (frame mn))"
        define q2a where "q2a = snd (layoutWithMetrics mn c2' (RCTShadowView t mn ycl' subs') q2)"
        have a2a: "affectedShadowViews q2a = affectedShadowViews q2"
          by (simp add: q2a_def layoutWithMetrics_affected_same)
        have "\<exists>subs2 q2b. layoutSubviewsWithContext c2' (RCTShadowView t mn ycl' subs') q2a
               = Inr (RCTShadowView t mn ycl' subs2, q2b)
             \<and> affectedShadowViews q2b = affectedShadowViews q2a
             \<and> list_all2 same_views subs3 subs2"
        proof (cases "displayType mn = RCTDisplayTypeNone")
          case True
          with sub1 svsubs show ?thesis by (simp add: view_unfold)
        next
          case False
          with sub1 have l1: "layoutSubviews_loop c1' subs q1a = Inr (subs3, q1b)" by simp
          from less.hyps [OF small_subs l1 svsubs qsubs, of c2' q2a] False
          show ?thesis by (auto simp: view_unfold)
        qed
        then obtain subs2 q2b where
          v2: "layoutSubviewsWithContext c2' (RCTShadowView t mn ycl' subs') q2a
               = Inr (RCTShadowView t mn ycl' subs2, q2b)"
          and a2b: "affectedShadowViews q2b = affectedShadowViews q2a"
          and s2b: "list_all2 same_views subs3 subs2"
          by blast
        from less.hyps [OF small_rest r1 svrest qrest, of c2' q2b] obtain ts2 q2' where
          r2: "layoutSubviews_loop c2' rest2 q2b = Inr (ts2, q2')"
          and a2: "affectedShadowViews q2' = affectedShadowViews q2b"
          and s2: "list_all2 same_views rest_t ts2"
          by blast
        have "layoutSubviews_loop c2 us2 q2 = Inr (RCTShadowView t mn ycl' subs2 # ts2, q2')"
          using v2 r2 clean' new' yl
          by (simp add: us2 w tt mm loop_Cons_visit Let_def ycl'_def c2'_def q2a_def mn_def)
        with a2 a2b a2a s2 s2b c3 ts1 show ?thesis by simp
      qed
    qed
  qed
qed


lemma view_second_pass:
  assumes "layoutSubviewsWithContext c1 (RCTShadowView t m y1 subs) q1 = Inr (child3, q1b)"
    and "same_views child3 (RCTShadowView t' m' y2 subs')"
    and "list_all2 quiescent subs subs'"
  shows "\<exists>subs2 q2b. layoutSubviewsWithContext c2 (RCTShadowView t' m' y2 subs') q2
             = Inr (RCTShadowView t' m' y2 subs2, q2b)
           \<and> affectedShadowViews q2b = affectedShadowViews q2
           \<and> same_views child3 (RCTShadowView t' m' y2 subs2)"
proof (cases "displayType m = RCTDisplayTypeNone")
  case True
  with assms(1) have "child3 = RCTShadowView t m y1 subs" by (simp add: view_unfold)
  with assms(2) True show ?thesis by (simp add: view_unfold)
next
  case False
  with assms(1) obtain subs3 where
    l1: "layoutSubviews_loop c1 subs q1 = Inr (subs3, q1b)"
    and c3: "child3 = RCTShadowView t m y1 subs3"
    by (auto simp: view_unfold split: sum.splits)
  from assms(2) c3 have mm: "m' = m" and tt: "t = t'" and sv: "list_all2 same_views subs3 subs'"
    by simp_all
  from loop_second_pass [OF l1 sv assms(3), of c2 q2] False mm tt c3
  show ?thesis by (auto simp: view_unfold)
qed

text \<open>
  C5. Let a layout with some minimum size, maximum size and direction have returned, and
  let the solver be run again by a second layout with the same three and nothing changed
  in between, which is to say: the solver leaves the shadow views alone, computes the
  same layout for every node as in the first solve, reports a new layout only for nodes
  for which the first solve reported one, and leaves no node dirty. Then the second
  layout returns, it adds no view to the affected views (the set of a fresh context
  stays empty), and no view's stored metrics change.
\<close>

theorem layout_twice_no_affected_views:
  assumes first: "layoutWithMinimumSize calc mn mx d ctx self p = Inr (self', p')"
    and views: "same_views self' (calc mx d (applyMinimumSize mn self'))"
    and quiet: "quiescent (calc mx d (applyMinimumSize mn self))
                  (calc mx d (applyMinimumSize mn self'))"
  shows "\<exists>self'' q'. layoutWithMinimumSize calc mn mx d ctx2 self' q = Inr (self'', q')
           \<and> affectedShadowViews q' = affectedShadowViews q
           \<and> same_views self' self''"
proof -
  obtain t m y subs where u1: "calc mx d (applyMinimumSize mn self) = RCTShadowView t m y subs"
    by (cases "calc mx d (applyMinimumSize mn self)")
  obtain t' m' y' subs' where u2: "calc mx d (applyMinimumSize mn self') = RCTShadowView t' m' y' subs'"
    by (cases "calc mx d (applyMinimumSize mn self')")
  from quiet u1 u2 have
    yl: "layoutMetricsFromYogaNode y' = layoutMetricsFromYogaNode y"
    and new: "hasNewLayout y' \<longrightarrow> hasNewLayout y"
    and clean': "\<not> isDirty y'"
    and qsubs: "list_all2 quiescent subs subs'"
    by simp_all
  show ?thesis
  proof (cases "hasNewLayout y'")
    case False
    with clean' u2 views show ?thesis
      by (simp add: layoutWithMinimumSize_def Let_def)
  next
    case True
    with new have newy: "hasNewLayout y" by simp
    define ycl where "ycl = y\<lparr>hasNewLayout := False\<rparr>"
    define mn1 where "mn1 = layoutMetricsFromYogaNode y"
    define c1 where "c1 = advance ctx (rect_origin (frame mn1))"
    define q1 where "q1 = snd (layoutWithMetrics mn1 c1 (RCTShadowView t m ycl subs) p)"
    from first u1 newy have v1:
      "layoutSubviewsWithContext c1 (RCTShadowView t mn1 ycl subs) q1 = Inr (self', p')"
      by (simp add: layoutWithMinimumSize_def Let_def YGNodeSetHasNewLayout_def split_beta
          layoutWithMetrics_fst ycl_def mn1_def c1_def q1_def split: if_splits)
    define ycl' where "ycl' = y'\<lparr>hasNewLayout := False\<rparr>"
    define c2 where "c2 = advance ctx2 (rect_origin (frame mn1))"
    define q2 where "q2 = snd (layoutWithMetrics mn1 c2 (RCTShadowView t' m' ycl' subs') q)"
    from views u2 have sv: "same_views self' (RCTShadowView t' m' ycl' subs')"
      by (cases self') simp
    from v1 sv have mm: "m' = mn1"
      by (cases "displayType mn1 = RCTDisplayTypeNone")
         (auto simp: view_unfold split: sum.splits)
    have a2: "affectedShadowViews q2 = affectedShadowViews q"
      by (simp add: q2_def mm layoutWithMetrics_affected_same)
    from view_second_pass [OF v1 sv qsubs, of c2 q2] obtain subs2 q2b where
      v2: "layoutSubviewsWithContext c2 (RCTShadowView t' m' ycl' subs') q2
             = Inr (RCTShadowView t' m' ycl' subs2, q2b)"
      and a2b: "affectedShadowViews q2b = affectedShadowViews q2"
      and s2: "same_views self' (RCTShadowView t' m' ycl' subs2)"
      by blast
    have "layoutWithMinimumSize calc mn mx d ctx2 self' q
            = Inr (RCTShadowView t' m' ycl' subs2, q2b)"
      using v2 True clean' yl
      by (simp add: layoutWithMinimumSize_def Let_def u2 YGNodeSetHasNewLayout_def split_beta
          layoutWithMetrics_fst ycl'_def mn1_def c2_def q2_def mm)
    with a2 a2b s2 show ?thesis by simp
  qed
qed


lemmas twice_defs =
  layoutWithMinimumSize_def marks_root_def unlaid_tree_def laid_tree_def consumed_def
  example_defs pass_defs layoutSubviewsWithContext.simps layoutSubviews_loop.simps

lemma first_layout: "layoutWithMinimumSize marks_root (CGSizeMake 10 10) (CGSizeMake 100 100)
      UIUserInterfaceLayoutDirectionLeftToRight context0 unlaid_tree pass0
    = Inr (laid_tree, \<lparr>affectedShadowViews = {1, 2, 3, 4},
         layoutCalls = [(1, CGPointMake 0 0), (2, CGPointMake 10 10), (3, CGPointMake 15 15), (4, CGPointMake 30 30)]\<rparr>)"
  by (simp add: twice_defs insert_commute)

lemma second_solve_same_views: "same_views laid_tree (marks_root (CGSizeMake 100 100) UIUserInterfaceLayoutDirectionLeftToRight
       (applyMinimumSize (CGSizeMake 10 10) laid_tree))"
  by (simp add: twice_defs)

lemma second_solve_quiescent: "quiescent (marks_root (CGSizeMake 100 100) UIUserInterfaceLayoutDirectionLeftToRight
       (applyMinimumSize (CGSizeMake 10 10) unlaid_tree)) (marks_root (CGSizeMake 100 100) UIUserInterfaceLayoutDirectionLeftToRight
       (applyMinimumSize (CGSizeMake 10 10) laid_tree))"
  by (simp add: twice_defs)

theorem layout_twice_no_affected_views_witness:
  "layoutWithMinimumSize marks_root (CGSizeMake 10 10) (CGSizeMake 100 100)
      UIUserInterfaceLayoutDirectionLeftToRight context0 unlaid_tree pass0
    = Inr (laid_tree, \<lparr>affectedShadowViews = {1, 2, 3, 4},
         layoutCalls = [(1, CGPointMake 0 0), (2, CGPointMake 10 10), (3, CGPointMake 15 15), (4, CGPointMake 30 30)]\<rparr>)
  \<and> same_views laid_tree (marks_root (CGSizeMake 100 100) UIUserInterfaceLayoutDirectionLeftToRight
       (applyMinimumSize (CGSizeMake 10 10) laid_tree))
  \<and> quiescent (marks_root (CGSizeMake 100 100) UIUserInterfaceLayoutDirectionLeftToRight
       (applyMinimumSize (CGSizeMake 10 10) unlaid_tree)) (marks_root (CGSizeMake 100 100) UIUserInterfaceLayoutDirectionLeftToRight
       (applyMinimumSize (CGSizeMake 10 10) laid_tree))
  \<and> (\<exists>self'' q'. layoutWithMinimumSize marks_root (CGSizeMake 10 10) (CGSizeMake 100 100)
      UIUserInterfaceLayoutDirectionLeftToRight context0 laid_tree pass0 = Inr (self'', q')
       \<and> affectedShadowViews q' = {})"
proof -
  from layout_twice_no_affected_views
      [OF first_layout second_solve_same_views second_solve_quiescent, of context0 pass0]
  have "\<exists>self'' q'. layoutWithMinimumSize marks_root (CGSizeMake 10 10) (CGSizeMake 100 100)
      UIUserInterfaceLayoutDirectionLeftToRight context0 laid_tree pass0 = Inr (self'', q')
       \<and> affectedShadowViews q' = {}"
    by (auto simp: pass0_def)
  with first_layout second_solve_same_views second_solve_quiescent show ?thesis by simp
qed

section \<open>Properties of hit testing\<close>





section \<open>Properties of insertion and removal\<close>

lemmas heap_defs =
  insertReactSubview_def insertObject_def canHaveSubviews_def isYogaLeafNode_def
  YGNodeInsertChild_def uint32_of_NSInteger_def removeReactSubview_def removeObject_def
  YGNodeRemoveChild_def Let_def

lemma insert_leaf_unchanged:
  assumes "insertReactSubview self subview atIndex heap = Inr heap'"
  shows "isYogaLeafNode (heap' v) = isYogaLeafNode (heap v)"
    and "isYogaLeafNode (heap v) \<Longrightarrow>
           object_yogaChildren (heap' v) = object_yogaChildren (heap v)"
  using assms by (auto simp: heap_defs split: if_splits)

lemma remove_leaf_unchanged:
  shows "isYogaLeafNode (removeReactSubview self subview heap v) = isYogaLeafNode (heap v)"
    and "isYogaLeafNode (heap v) \<Longrightarrow>
           object_yogaChildren (removeReactSubview self subview heap v)
             = object_yogaChildren (heap v)"
  by (auto simp: heap_defs)

lemma insert_mirrored:
  assumes "\<forall>v. \<not> isYogaLeafNode (heap v) \<longrightarrow>
                object_yogaChildren (heap v) = object_reactSubviews (heap v)"
    and "atIndex < 4294967296"
    and "insertReactSubview self subview atIndex heap = Inr heap'"
    and "\<not> isYogaLeafNode (heap v)"
  shows "object_yogaChildren (heap' v) = object_reactSubviews (heap' v)"
  using assms by (auto simp: heap_defs split: if_splits)

lemma remove_mirrored:
  assumes "\<forall>v. \<not> isYogaLeafNode (heap v) \<longrightarrow>
                object_yogaChildren (heap v) = object_reactSubviews (heap v)"
    and "\<not> isYogaLeafNode (heap v)"
  shows "object_yogaChildren (removeReactSubview self subview heap v)
       = object_reactSubviews (removeReactSubview self subview heap v)"
  using assms by (auto simp: heap_defs)

lemma exec_step:
  assumes "\<forall>v. \<not> isYogaLeafNode (heap v) \<longrightarrow>
                object_yogaChildren (heap v) = object_reactSubviews (heap v)"
    and "index_fits op"
    and "exec op heap = Inr heap'"
  shows "isYogaLeafNode (heap' v) = isYogaLeafNode (heap v)"
    and "\<not> isYogaLeafNode (heap v) \<Longrightarrow>
           object_yogaChildren (heap' v) = object_reactSubviews (heap' v)"
    and "isYogaLeafNode (heap v) \<Longrightarrow>
           object_yogaChildren (heap' v) = object_yogaChildren (heap v)"
proof -
  show "isYogaLeafNode (heap' v) = isYogaLeafNode (heap v)"
    using assms(3) insert_leaf_unchanged(1) remove_leaf_unchanged(1)
    by (cases op) auto
  show "object_yogaChildren (heap' v) = object_reactSubviews (heap' v)"
    if "\<not> isYogaLeafNode (heap v)"
  proof (cases op)
    case (InsertSubview self subview atIndex)
    with assms that show ?thesis
      using insert_mirrored [of heap atIndex self subview heap' v] by simp
  next
    case (RemoveSubview self subview)
    with assms that show ?thesis
      using remove_mirrored [of heap v self subview] by auto
  qed
  show "object_yogaChildren (heap' v) = object_yogaChildren (heap v)"
    if "isYogaLeafNode (heap v)"
    using assms(3) that insert_leaf_unchanged(2) remove_leaf_unchanged(2)
    by (cases op) auto
qed

lemma heap1_eq:
  "heap1 = init_heap
     (3 := \<lparr>object_reactSubviews = [2], object_superview = None, object_yogaChildren = [2],
            object_canHaveSubviews = True, object_isYogaLeafNode = False\<rparr>,
      2 := \<lparr>object_reactSubviews = [], object_superview = Some 3, object_yogaChildren = [],
            object_canHaveSubviews = True, object_isYogaLeafNode = False\<rparr>)"
  by (simp add: heap1_def heap_defs init_heap_def)

text \<open>
  C8, as stated, fails. View 1 is of a class that answers YES to \<open>isYogaLeafNode\<close>; it
  has no subviews and its solver node no children. Inserting view 2 at index 0 gives it
  the subview 2 and leaves its solver node without children.
\<close>

theorem solver_leaf_not_mirrored_counterexample:
  "object_reactSubviews (leaf_heap 1) = [] \<and> object_yogaChildren (leaf_heap 1) = []
   \<and> isYogaLeafNode (leaf_heap 1) \<and> canHaveSubviews (leaf_heap 1)
   \<and> index_fits (InsertSubview 1 2 0)
   \<and> object_reactSubviews (run [InsertSubview 1 2 0] leaf_heap 1) = [2]
   \<and> object_yogaChildren (run [InsertSubview 1 2 0] leaf_heap 1) = []"
  by (simp add: leaf_heap_def init_heap_def heap_defs)

text \<open>
  C8, amended. Whether a view is a solver leaf is never changed by an insertion or a
  removal. If the solver children of every view that is not a solver leaf equal its
  subviews, they still do after any sequence of insertions and removals, for every such
  view; the solver node of a view that is a solver leaf keeps the children it had,
  whatever happens to the view's subviews. The insertion indices are taken to be below
  \<open>2^32\<close>, where the cast of the index to \<open>uint32_t\<close> changes nothing.
\<close>

theorem solver_children_mirror_subviews_amended:
  "\<forall>v. \<not> isYogaLeafNode (heap v) \<longrightarrow>
         object_yogaChildren (heap v) = object_reactSubviews (heap v) \<Longrightarrow>
   \<forall>op \<in> set ops. index_fits op \<Longrightarrow>
   \<forall>v. isYogaLeafNode (run ops heap v) = isYogaLeafNode (heap v)
     \<and> (\<not> isYogaLeafNode (heap v) \<longrightarrow>
          object_yogaChildren (run ops heap v) = object_reactSubviews (run ops heap v))
     \<and> (isYogaLeafNode (heap v) \<longrightarrow>
          object_yogaChildren (run ops heap v) = object_yogaChildren (heap v))"
proof (induction ops arbitrary: heap)
  case Nil
  then show ?case by simp
next
  case (Cons op ops)
  show ?case
  proof (cases "exec op heap")
    case (Inl e)
    with Cons show ?thesis by simp
  next
    case (Inr heap')
    have fits: "index_fits op" using Cons.prems(2) by simp
    note step = exec_step [OF Cons.prems(1) fits Inr]
    have "\<forall>v. \<not> isYogaLeafNode (heap' v) \<longrightarrow>
            object_yogaChildren (heap' v) = object_reactSubviews (heap' v)"
      using step(1) step(2) by simp
    moreover have "\<forall>op \<in> set ops. index_fits op" using Cons.prems(2) by simp
    ultimately have
      "\<forall>v. isYogaLeafNode (run ops heap' v) = isYogaLeafNode (heap' v)
         \<and> (\<not> isYogaLeafNode (heap' v) \<longrightarrow>
              object_yogaChildren (run ops heap' v) = object_reactSubviews (run ops heap' v))
         \<and> (isYogaLeafNode (heap' v) \<longrightarrow>
              object_yogaChildren (run ops heap' v) = object_yogaChildren (heap' v))"
      by (rule Cons.IH)
    then show ?thesis
      using Inr step(1) step(3) by simp
  qed
qed

theorem solver_children_mirror_subviews_amended_witness:
  "(\<forall>v. isYogaLeafNode (leaf_heap v) = (v = 1))
   \<and> (\<forall>v. object_yogaChildren (leaf_heap v) = object_reactSubviews (leaf_heap v))
   \<and> index_fits (InsertSubview 5 2 0) \<and> index_fits (InsertSubview 5 3 0)
   \<and> index_fits (RemoveSubview 5 2) \<and> index_fits (InsertSubview 5 4 1)
   \<and> index_fits (InsertSubview 1 6 0)
   \<and> object_reactSubviews
        (run [InsertSubview 5 2 0, InsertSubview 5 3 0, RemoveSubview 5 2, InsertSubview 5 4 1,
              InsertSubview 1 6 0] leaf_heap 5) = [3, 4]
   \<and> object_yogaChildren
        (run [InsertSubview 5 2 0, InsertSubview 5 3 0, RemoveSubview 5 2, InsertSubview 5 4 1,
              InsertSubview 1 6 0] leaf_heap 5) = [3, 4]
   \<and> object_reactSubviews
        (run [InsertSubview 5 2 0, InsertSubview 5 3 0, RemoveSubview 5 2, InsertSubview 5 4 1,
              InsertSubview 1 6 0] leaf_heap 1) = [6]
   \<and> object_yogaChildren
        (run [InsertSubview 5 2 0, InsertSubview 5 3 0, RemoveSubview 5 2, InsertSubview 5 4 1,
              InsertSubview 1 6 0] leaf_heap 1) = []"
proof -
  let ?ops = "[InsertSubview 5 2 0, InsertSubview 5 3 0, RemoveSubview 5 2,
    InsertSubview 5 4 1, InsertSubview 1 6 0]"
  have l: "\<forall>v. isYogaLeafNode (leaf_heap v) = (v = 1)"
    by (simp add: leaf_heap_def init_heap_def isYogaLeafNode_def)
  have m: "\<forall>v. object_yogaChildren (leaf_heap v) = object_reactSubviews (leaf_heap v)"
    by (simp add: leaf_heap_def init_heap_def)
  have h: "\<forall>v. \<not> isYogaLeafNode (leaf_heap v) \<longrightarrow>
      object_yogaChildren (leaf_heap v) = object_reactSubviews (leaf_heap v)"
    using m by simp
  have f: "\<forall>op \<in> set ?ops. index_fits op"
    by simp
  have r5: "object_reactSubviews (run ?ops leaf_heap 5) = [3, 4]"
    by (simp add: heap_defs leaf_heap_def init_heap_def)
  have r1: "object_reactSubviews (run ?ops leaf_heap 1) = [6]"
    by (simp add: heap_defs leaf_heap_def init_heap_def)
  have y1: "object_yogaChildren (leaf_heap 1) = []"
    by (simp add: leaf_heap_def init_heap_def)
  note all = solver_children_mirror_subviews_amended [OF h f]
  have l5: "\<not> isYogaLeafNode (leaf_heap 5)" and l1: "isYogaLeafNode (leaf_heap 1)"
    using l by simp_all
  have "object_yogaChildren (run ?ops leaf_heap 5) = object_reactSubviews (run ?ops leaf_heap 5)"
    using all l5 by blast
  moreover have "object_yogaChildren (run ?ops leaf_heap 1) = object_yogaChildren (leaf_heap 1)"
    using all l1 by blast
  ultimately show ?thesis
    using l m r5 r1 y1 by simp
qed

text \<open>
  C9, as stated, fails. View 2 is a subview of view 3 and not of view 1. Removing it from
  view 1 raises nothing: the call returns, and view 2 has lost its superview.
\<close>

theorem remove_non_child_counterexample:
  "2 \<notin> set (object_reactSubviews (heap1 1))
   \<and> exec (RemoveSubview 1 2) heap1 = Inr (heap1(2 := (heap1 2)\<lparr>object_superview := None\<rparr>))"
  by (auto simp add: heap1_eq heap_defs init_heap_def fun_eq_iff)

text \<open>
  C9, amended. \<open>removeReactSubview:\<close> always returns. It leaves the receiver with its
  subviews less the given view, the others in their order, and, unless the receiver is
  a solver leaf, with its solver children less the given view; a solver leaf's solver
  node is left as it is. When the view was a subview of the receiver, its superview is
  cleared and it is no longer among the receiver's subviews nor, unless the receiver is
  a solver leaf, among its solver children. When it was not, the receiver's subviews
  are as before and no error is raised.
\<close>

theorem removeReactSubview_amended:
  "\<exists>heap'. exec (RemoveSubview self subview) heap = Inr heap'
      \<and> object_reactSubviews (heap' self)
          = removeAll subview (object_reactSubviews (heap self))
      \<and> object_yogaChildren (heap' self)
          = (if isYogaLeafNode (heap self) then object_yogaChildren (heap self)
             else removeAll subview (object_yogaChildren (heap self)))
      \<and> (subview \<in> set (object_reactSubviews (heap self)) \<longrightarrow>
            object_superview (heap' subview) = None
          \<and> subview \<notin> set (object_reactSubviews (heap' self))
          \<and> (\<not> isYogaLeafNode (heap self) \<longrightarrow>
                subview \<notin> set (object_yogaChildren (heap' self))))
      \<and> (subview \<notin> set (object_reactSubviews (heap self)) \<longrightarrow>
            object_reactSubviews (heap' self) = object_reactSubviews (heap self))"
  by (auto simp add: heap_defs)

theorem removeReactSubview_amended_witness:
  "2 \<in> set (object_reactSubviews (heap1 3)) \<and> \<not> isYogaLeafNode (heap1 3)
   \<and> (\<exists>heap'. exec (RemoveSubview 3 2) heap1 = Inr heap'
        \<and> object_superview (heap' 2) = None
        \<and> object_reactSubviews (heap' 3) = [] \<and> object_yogaChildren (heap' 3) = [])
   \<and> 2 \<notin> set (object_reactSubviews (heap1 1))
   \<and> (\<exists>heap'. exec (RemoveSubview 1 2) heap1 = Inr heap'
        \<and> object_reactSubviews (heap' 1) = object_reactSubviews (heap1 1))"
  using removeReactSubview_amended [of 3 2 heap1] removeReactSubview_amended [of 1 2 heap1]
  by (auto simp add: heap1_eq init_heap_def isYogaLeafNode_def)

end
